theory Spec2Isabelle
  imports Main "HOL-Library.Sublist" "HOL-Library.Multiset"
begin

section \<open>JavaScript values used by the debugger core\<close>

text \<open>
  Strings are lists of 8-bit characters (the code units below 256). Numbers are the
  integers together with NaN: every number the modelled code computes comes from
  \<^verbatim>\<open>parseInt\<close>, from integer literals or from integer arithmetic, and it is
  printed exactly as long as its magnitude stays below \<open>10^21\<close>.
\<close>

datatype jsnum = NaN | Num int

text \<open>A thrown value: an \<^verbatim>\<open>Error\<close> object with its message, or any other value.\<close>

datatype thrown = Error string | NonError

subsection \<open>Number to string\<close>

definition digitChar :: "nat \<Rightarrow> char" where
  "digitChar d = ''0123456789abcdefghijklmnopqrstuvwxyz'' ! d"

text \<open>The digits of a number that is not negative, in radix \<open>r\<close>.\<close>

function digitString :: "nat \<Rightarrow> int \<Rightarrow> string" where
  "digitString r n =
     (if r < 2 \<or> n < int r then [digitChar (nat n)]
      else digitString r (n div int r) @ [digitChar (nat (n mod int r))])"
  by pat_completeness auto
termination
  by (relation "measure (\<lambda>(r, n). nat n)") (auto intro!: int_div_less_self)

text \<open>\<^verbatim>\<open>Number.prototype.toString(radix)\<close> on an integer or NaN.\<close>

definition numToString :: "nat \<Rightarrow> jsnum \<Rightarrow> string" where
  "numToString r x =
     (case x of
        NaN \<Rightarrow> ''NaN''
      | Num i \<Rightarrow> (if i < 0 then ''-'' @ digitString r (- i) else digitString r i))"

text \<open>A template literal \<^verbatim>\<open>${x}\<close> of a possibly undefined number or string.\<close>

definition tmplNum :: "jsnum option \<Rightarrow> string" where
  "tmplNum x = (case x of None \<Rightarrow> ''undefined'' | Some n \<Rightarrow> numToString 10 n)"

definition tmplStr :: "string option \<Rightarrow> string" where
  "tmplStr x = (case x of None \<Rightarrow> ''undefined'' | Some s \<Rightarrow> s)"

subsection \<open>parseInt\<close>

definition isWhiteSpace :: "char \<Rightarrow> bool" where
  "isWhiteSpace c = (c \<in> set [CHR '' '', CHR 0x09, CHR 0x0A, CHR 0x0B, CHR 0x0C, CHR 0x0D, CHR 0xA0])"

definition digitValue :: "char \<Rightarrow> nat option" where
  "digitValue c =
     (let n = (of_char c :: nat)
      in if 48 \<le> n \<and> n \<le> 57 then Some (n - 48)
         else if 97 \<le> n \<and> n \<le> 122 then Some (n - 87)
         else if 65 \<le> n \<and> n \<le> 90 then Some (n - 55)
         else None)"

definition isDigitOf :: "nat \<Rightarrow> char \<Rightarrow> bool" where
  "isDigitOf r c = (case digitValue c of None \<Rightarrow> False | Some d \<Rightarrow> d < r)"

text \<open>The value of a digit string, most significant digit first.\<close>

definition digitsValue :: "nat \<Rightarrow> string \<Rightarrow> int" where
  "digitsValue r ds =
     foldl (\<lambda>acc c. acc * int r + (case digitValue c of None \<Rightarrow> 0 | Some d \<Rightarrow> int d)) 0 ds"

text \<open>
  \<^verbatim>\<open>parseInt(s, radix)\<close>, radix 0 standing for an absent radix: leading white space
  is dropped, then an optional sign, then (radix absent or 16) an optional
  \<^verbatim>\<open>0x\<close>/\<^verbatim>\<open>0X\<close>; the longest prefix of digits of the radix is the number, and
  NaN results when that prefix is empty.
\<close>

definition parseInt :: "nat \<Rightarrow> string \<Rightarrow> jsnum" where
  "parseInt radix str =
     (let s = dropWhile isWhiteSpace str;
          neg = (take 1 s = ''-'');
          s1 = (if take 1 s = ''-'' \<or> take 1 s = ''+'' then drop 1 s else s);
          stripPrefix = (radix = 0 \<or> radix = 16);
          hex = (stripPrefix \<and> (take 2 s1 = ''0x'' \<or> take 2 s1 = ''0X''));
          r = (if hex then 16 else if radix = 0 then 10 else radix);
          s2 = (if hex then drop 2 s1 else s1);
          z = takeWhile (isDigitOf r) s2
      in if radix \<noteq> 0 \<and> (radix < 2 \<or> 36 < radix) then NaN
         else if z = [] then NaN
         else Num ((if neg then - 1 else 1) * digitsValue r z))"

subsection \<open>String operations\<close>

text \<open>\<^verbatim>\<open>s.replace(pat, rep)\<close> with a string pattern: the first occurrence only.\<close>

fun replaceFirst :: "string \<Rightarrow> string \<Rightarrow> string \<Rightarrow> string" where
  "replaceFirst pat rep [] = (if pat = [] then rep else [])"
| "replaceFirst pat rep (c # cs) =
     (if prefix pat (c # cs) then rep @ drop (length pat) (c # cs)
      else c # replaceFirst pat rep cs)"

definition endsWith :: "string \<Rightarrow> string \<Rightarrow> bool" where
  "endsWith s suf = suffix suf s"

definition padStart :: "nat \<Rightarrow> char \<Rightarrow> string \<Rightarrow> string" where
  "padStart n c s = replicate (n - length s) c @ s"

text \<open>\<^verbatim>\<open>formatAddress\<close> and \<^verbatim>\<open>formatHexadecimal\<close> of utils/strings.ts.\<close>

definition formatAddress :: "jsnum \<Rightarrow> string" where
  "formatAddress v = ''$'' @ numToString 16 v"

definition formatHexadecimal :: "jsnum \<Rightarrow> string" where
  "formatHexadecimal a = ''0x'' @ padStart 8 (CHR ''0'') (numToString 16 a)"

section \<open>Regular expressions of the disassembly file names\<close>

text \<open>
  The three patterns of \<^verbatim>\<open>DisassembledFile.fromPath\<close> use literal characters,
  \<^verbatim>\<open>.\<close> (any character but a line terminator), \<^verbatim>\<open>[^_]\<close>, the greedy
  quantifiers \<^verbatim>\<open>+\<close> and \<^verbatim>\<open>?\<close>, named groups and \<^verbatim>\<open>$\<close>. A backtracking
  matcher returns every way a pattern matches a prefix of the input, in the order a
  backtracking engine tries them (a greedy quantifier takes more before less), each
  with the rest of the input and the groups captured so far.
\<close>

datatype re =
    Lit char
  | Dot
  | NotCh char
  | Cat re re
  | Opt re
  | Plus re
  | Grp string re
  | Eos

type_synonym groups = "(string \<times> string) list"

definition isLineTerminator :: "char \<Rightarrow> bool" where
  "isLineTerminator c = (c = CHR 0x0A \<or> c = CHR 0x0D)"

function (sequential) matches :: "re \<Rightarrow> string \<Rightarrow> groups \<Rightarrow> (string \<times> groups) list" where
  "matches (Lit c) s g = (case s of [] \<Rightarrow> [] | x # xs \<Rightarrow> if x = c then [(xs, g)] else [])"
| "matches Dot s g = (case s of [] \<Rightarrow> [] | x # xs \<Rightarrow> if isLineTerminator x then [] else [(xs, g)])"
| "matches (NotCh c) s g = (case s of [] \<Rightarrow> [] | x # xs \<Rightarrow> if x = c then [] else [(xs, g)])"
| "matches (Cat a b) s g = concat (map (\<lambda>p. matches b (fst p) (snd p)) (matches a s g))"
| "matches (Opt a) s g = matches a s g @ [(s, g)]"
| "matches (Plus a) s g =
     concat (map (\<lambda>p. (if length (fst p) < length s then matches (Plus a) (fst p) (snd p) else [])
                        @ [p])
                 (matches a s g))"
| "matches (Grp n a) s g =
     map (\<lambda>p. (fst p, (n, take (length s - length (fst p)) s) # snd p)) (matches a s g)"
| "matches Eos s g = (if s = [] then [(s, g)] else [])"
  by pat_completeness auto
termination
  by (relation "measures [\<lambda>(r, s, g). size r, \<lambda>(r, s, g). length s]") auto

text \<open>
  \<^verbatim>\<open>path.match(re)\<close> for a pattern that starts with \<^verbatim>\<open>^\<close> and has no flags: the
  match can only start at index 0, and the first alternative the engine finds wins.
  The result is the \<^verbatim>\<open>groups\<close> object, or None for \<^verbatim>\<open>null\<close>.
\<close>

definition matchStart :: "re \<Rightarrow> string \<Rightarrow> groups option" where
  "matchStart r s = (case matches r s [] of [] \<Rightarrow> None | p # _ \<Rightarrow> Some (snd p))"

definition lits :: "string \<Rightarrow> re" where
  "lits s = foldr (\<lambda>c r. Cat (Lit c) r) (butlast s) (Lit (last s))"

definition cats :: "re list \<Rightarrow> re" where
  "cats rs = foldr Cat (butlast rs) (last rs)"

text \<open>\<^verbatim>\<open>(?<path>.+\/)?\<close>, the optional directory prefix shared by the three patterns.\<close>

definition dirRe :: re where
  "dirRe = Opt (Grp ''path'' (Cat (Plus Dot) (Lit CHR ''/'')))"

definition field :: "string \<Rightarrow> re" where
  "field n = Grp n (Plus (NotCh CHR ''_''))"

text \<open>\<^verbatim>\<open>/^(?<path>.+\/)?seg_(?<segmentId>[^_]+).dbgasm$/\<close>\<close>

definition segRe :: re where
  "segRe = cats [dirRe, lits ''seg_'', field ''segmentId'', Dot, lits ''dbgasm'', Eos]"

text \<open>\<^verbatim>\<open>/^(?<path>.+\/)?copper_(?<address>[^_]+)__(?<length>[^_]+).dbgasm$/\<close>\<close>

definition copperRe :: re where
  "copperRe = cats [dirRe, lits ''copper_'', field ''address'', lits ''__'', field ''length'',
                    Dot, lits ''dbgasm'', Eos]"

text \<open>\<^verbatim>\<open>/^(?<path>.+\/)?(?<frame>[^_]+)__(?<address>[^_]+)__(?<length>[^_]+).dbgasm$/\<close>\<close>

definition addressRe :: re where
  "addressRe = cats [dirRe, field ''frame'', lits ''__'', field ''address'', lits ''__'',
                     field ''length'', Dot, lits ''dbgasm'', Eos]"

text \<open>A group of a match; None is \<^verbatim>\<open>undefined\<close> (the group took no part).\<close>

definition grp :: "groups \<Rightarrow> string \<Rightarrow> string option" where
  "grp g n = map_of g n"

section \<open>DisassembledFile\<close>

record disassembledFile =
  df_segmentId :: "jsnum option"
  df_stackFrameIndex :: "jsnum option"
  df_addressExpression :: "string option"
  df_length :: "jsnum option"
  df_copper :: bool
  df_path :: string

text \<open>\<^verbatim>\<open>new DisassembledFile()\<close> and the chained setters.\<close>

definition newDisassembledFile :: disassembledFile where
  "newDisassembledFile =
     \<lparr>df_segmentId = None, df_stackFrameIndex = None, df_addressExpression = None,
      df_length = None, df_copper = False, df_path = []\<rparr>"

definition setPath :: "string \<Rightarrow> disassembledFile \<Rightarrow> disassembledFile" where
  "setPath p f = f\<lparr>df_path := p\<rparr>"

definition setSegmentId :: "jsnum \<Rightarrow> disassembledFile \<Rightarrow> disassembledFile" where
  "setSegmentId i f = f\<lparr>df_segmentId := Some i\<rparr>"

definition setStackFrameIndex :: "jsnum \<Rightarrow> disassembledFile \<Rightarrow> disassembledFile" where
  "setStackFrameIndex i f = f\<lparr>df_stackFrameIndex := Some i\<rparr>"

definition setAddressExpression :: "string \<Rightarrow> disassembledFile \<Rightarrow> disassembledFile" where
  "setAddressExpression a f = f\<lparr>df_addressExpression := Some a\<rparr>"

definition setLength :: "jsnum \<Rightarrow> disassembledFile \<Rightarrow> disassembledFile" where
  "setLength n f = f\<lparr>df_length := Some n\<rparr>"

definition setCopper :: "bool \<Rightarrow> disassembledFile \<Rightarrow> disassembledFile" where
  "setCopper b f = f\<lparr>df_copper := b\<rparr>"

definition isSegment :: "disassembledFile \<Rightarrow> bool" where
  "isSegment f = (df_segmentId f \<noteq> None)"

definition isCopper :: "disassembledFile \<Rightarrow> bool" where
  "isCopper f = df_copper f"

definition toString :: "disassembledFile \<Rightarrow> string" where
  "toString f =
     (if isSegment f then df_path f @ ''seg_'' @ tmplNum (df_segmentId f) @ ''.dbgasm''
      else if isCopper f then
        df_path f @ ''copper_'' @ tmplStr (df_addressExpression f) @ ''__''
          @ tmplNum (df_length f) @ ''.dbgasm''
      else
        df_path f @ tmplNum (df_stackFrameIndex f) @ ''__'' @ tmplStr (df_addressExpression f)
          @ ''__'' @ tmplNum (df_length f) @ ''.dbgasm'')"

text \<open>
  A group read from \<^verbatim>\<open>groups\<close>: the destructuring default \<^verbatim>\<open>path = ""\<close> replaces
  an undefined directory; the other groups take part in every match of their pattern,
  and an undefined one would reach \<^verbatim>\<open>parseInt\<close> as the text \<^verbatim>\<open>undefined\<close>.
\<close>

definition pathOf :: "groups \<Rightarrow> string" where
  "pathOf g = (case grp g ''path'' of None \<Rightarrow> [] | Some p \<Rightarrow> p)"

definition fromPath :: "string \<Rightarrow> thrown + disassembledFile" where
  "fromPath path =
     (case matchStart segRe path of
        Some g \<Rightarrow>
          Inr (setSegmentId (parseInt 0 (tmplStr (grp g ''segmentId'')))
                (setPath (pathOf g) newDisassembledFile))
      | None \<Rightarrow>
     (case matchStart copperRe path of
        Some g \<Rightarrow>
          Inr (setCopper True
                (setLength (parseInt 0 (tmplStr (grp g ''length'')))
                  (setAddressExpression (tmplStr (grp g ''address''))
                    (setPath (pathOf g) newDisassembledFile))))
      | None \<Rightarrow>
     (case matchStart addressRe path of
        Some g \<Rightarrow>
          Inr (setLength (parseInt 0 (tmplStr (grp g ''length'')))
                (setAddressExpression (tmplStr (grp g ''address''))
                  (setStackFrameIndex (parseInt 0 (tmplStr (grp g ''frame'')))
                    (setPath (pathOf g) newDisassembledFile))))
      | None \<Rightarrow> Inl (Error (''Unrecognised filename format '' @ path)))))"

definition toURI :: "disassembledFile \<Rightarrow> string" where
  "toURI f = ''disassembly:'' @ replaceFirst ''#'' ''%23'' (toString f)"

definition isDebugAsmFile :: "string \<Rightarrow> bool" where
  "isDebugAsmFile path = endsWith path ''.dbgasm''"

section \<open>Collaborators\<close>

text \<open>
  The remote session (\<^verbatim>\<open>GdbProxy\<close>), the symbol database (\<^verbatim>\<open>Program\<close>), the two
  decoders, the mutex and \<^verbatim>\<open>isDisassembledFile\<close> live outside these files. They are
  parameters of the model. Every call of a collaborator whose answer can change over
  time is appended to a history, and the collaborator answers as a function of the
  history before the call and of the arguments: as the history grows with each call,
  no two calls of a run see the same history, so quantifying over these functions
  covers every sequence of answers and failures. A failing call answers with the
  thrown value.
\<close>

record dapSource =
  src_name :: "string option"
  src_path :: "string option"

datatype gdbBreakpointType = SOURCE | DATA | INSTRUCTION | EXCEPTION | TEMPORARY

datatype gdbBreakpointAccessType = READ | WRITE | READWRITE

record gdbBreakpoint =
  bp_breakpointType :: gdbBreakpointType
  bp_id :: "int option"
  bp_line :: "int option"
  bp_source :: "dapSource option"
  bp_verified :: bool
  bp_offset :: int
  bp_segmentId :: "int option"
  bp_temporary :: "bool option"
  bp_size :: "int option"
  bp_accessType :: "gdbBreakpointAccessType option"
  bp_message :: "string option"
  bp_defaultMessage :: "string option"
  bp_exceptionMask :: "int option"

record location =
  loc_segmentId :: int
  loc_offset :: int

record instruction =
  ins_address :: string
  ins_instructionBytes :: "string option"
  ins_instruction :: string

record cpuDisassembly =
  dis_code :: string
  dis_instructions :: "instruction list"

record copperInstruction =
  ci_instructionBytes :: string
  ci_toString :: string

type_synonym gdbThread = int

datatype call =
    IsConnected
  | SetBreakpoint gdbBreakpoint
  | RemoveBreakpoint gdbBreakpoint
  | GetMemory jsnum jsnum
  | GetSegmentMemory jsnum
  | FindLocationForLine string int
  | GetAddressForFileEditorLine string int
  | Evaluate string
  | MutexCapture
  | MutexRelease

type_synonym history = "call list"

record env =
  gdb_isConnected :: "history \<Rightarrow> bool"
  gdb_setBreakpoint :: "history \<Rightarrow> gdbBreakpoint \<Rightarrow> thrown option"
  gdb_removeBreakpoint :: "history \<Rightarrow> gdbBreakpoint \<Rightarrow> thrown option"
  gdb_getMemory :: "history \<Rightarrow> jsnum \<Rightarrow> jsnum \<Rightarrow> thrown + string"
  gdb_getSegmentMemory :: "history \<Rightarrow> jsnum \<Rightarrow> thrown + string"
  gdb_toRelativeOffset :: "int \<Rightarrow> int \<times> int"
  gdb_toAbsoluteOffset :: "jsnum \<Rightarrow> int \<Rightarrow> thrown + jsnum"
  gdb_isCopperThread :: "gdbThread \<Rightarrow> bool"
  gdb_isCPUThread :: "gdbThread \<Rightarrow> bool"
  program_findLocationForLine :: "history \<Rightarrow> string \<Rightarrow> int \<Rightarrow> thrown + location option"
  program_getAddressForFileEditorLine :: "history \<Rightarrow> string \<Rightarrow> int \<Rightarrow> thrown + int"
  program_evaluate :: "history \<Rightarrow> string \<Rightarrow> thrown + jsnum option"
  mutex_capture :: "history \<Rightarrow> thrown option"
  isDisassembledFile :: "string \<Rightarrow> bool"
  disassemble :: "string \<Rightarrow> jsnum option \<Rightarrow> thrown + cpuDisassembly"
  disassembleCopper :: "string \<Rightarrow> thrown + copperInstruction list"

section \<open>BreakpointManager\<close>












subsection \<open>Flushing the pending queue\<close>




subsection \<open>Clearing breakpoints\<close>

definition isSameSource :: "env \<Rightarrow> dapSource \<Rightarrow> dapSource \<Rightarrow> bool" where
  "isSameSource e source other =
     ((src_path source \<noteq> None \<and> src_path source = src_path other) \<or>
      (case src_name source of
         None \<Rightarrow> False
       | Some name \<Rightarrow> isDisassembledFile e name \<and> src_name source = src_name other))"

text \<open>The test of the loop of \<^verbatim>\<open>clearBreakpointsType\<close> that selects an entry.\<close>

definition selected :: "env \<Rightarrow> gdbBreakpointType \<Rightarrow> dapSource option \<Rightarrow> gdbBreakpoint \<Rightarrow> bool" where
  "selected e type source bp =
     (let isCorrectType = (bp_breakpointType bp = type);
          sameSource =
            (case (source, bp_source bp) of
               (Some s, Some bs) \<Rightarrow> isSameSource e bs s
             | _ \<Rightarrow> False)
      in isCorrectType \<and> (source = None \<or> sameSource))"



section \<open>DisassemblyManager\<close>

subsection \<open>Text of a decoded line\<close>

text \<open>\<^verbatim>\<open>s.split(sep)\<close> with a string separator.\<close>

fun splitOn :: "string \<Rightarrow> string \<Rightarrow> string \<Rightarrow> string list" where
  "splitOn sep cur [] = [cur]"
| "splitOn sep cur (c # cs) =
     (if prefix sep (c # cs) then cur # splitOn sep [] (drop (length sep - 1) cs)
      else splitOn sep (cur @ [c]) cs)"

definition split :: "string \<Rightarrow> string \<Rightarrow> string list" where
  "split sep s = (if sep = [] then map (\<lambda>c. [c]) s else splitOn sep [] s)"

text \<open>\<^verbatim>\<open>splitLines\<close> of utils/strings.ts: \<^verbatim>\<open>value.split(/\r?\n/g)\<close>.\<close>

fun splitLinesFrom :: "string \<Rightarrow> string \<Rightarrow> string list" where
  "splitLinesFrom cur [] = [cur]"
| "splitLinesFrom cur (c # cs) =
     (if c = CHR 0x0A then cur # splitLinesFrom [] cs
      else if c = CHR 0x0D \<and> take 1 cs = [CHR 0x0A] then cur # splitLinesFrom [] (drop 1 cs)
      else splitLinesFrom (cur @ [c]) cs)"

definition splitLines :: "string \<Rightarrow> string list" where
  "splitLines v = splitLinesFrom [] v"

definition trim :: "string \<Rightarrow> string" where
  "trim s = rev (dropWhile isWhiteSpace (rev (dropWhile isWhiteSpace s)))"

text \<open>\<^verbatim>\<open>s.replace(/\s\s+/g, " ")\<close>: a run of two or more white spaces becomes one blank.\<close>

function collapseSpaces :: "string \<Rightarrow> string" where
  "collapseSpaces [] = []"
| "collapseSpaces (c # cs) =
     (if isWhiteSpace c \<and> cs \<noteq> [] \<and> isWhiteSpace (hd cs)
      then CHR '' '' # collapseSpaces (dropWhile isWhiteSpace cs)
      else c # collapseSpaces cs)"
  by pat_completeness auto
termination
  by (relation "measure length") (auto simp: less_Suc_eq_le length_dropWhile_le)

text \<open>
  The text appended for a coprocessor line,
  \<^verbatim>\<open>lines[0].toString().split("    ")[0]\<close>; reading \<^verbatim>\<open>lines[0]\<close> of an empty
  list throws a TypeError.
\<close>

definition copperLineText :: "copperInstruction list \<Rightarrow> thrown + string" where
  "copperLineText lines =
     (case lines of
        [] \<Rightarrow> Inl (Error ''Cannot read properties of undefined'')
      | l # _ \<Rightarrow> Inr (hd (split ''    '' (ci_toString l))))"

text \<open>
  The text appended for a CPU line: the first line of \<open>code\<close> that is not blank (the
  first line when all are), its third field when two blanks separate more than two
  fields, trimmed, with runs of white space collapsed.
\<close>

definition cpuLineText :: "string \<Rightarrow> string" where
  "cpuLineText code =
     (let lines = splitLines code;
          selectedLine = (case find (\<lambda>l. length (trim l) \<noteq> 0) lines of
                            None \<Rightarrow> hd lines | Some l \<Rightarrow> l);
          elms = split ''  '' selectedLine;
          selectedLine2 = (if length elms > 2 then elms ! 2 else selectedLine)
      in collapseSpaces (trim selectedLine2))"

subsection \<open>The line cache\<close>

record disassembledLine =
  dl_text :: string
  dl_isCopper :: bool

type_synonym lineCache = "int \<rightharpoonup> disassembledLine"

type_synonym dmState = "history \<times> lineCache"

text \<open>
  The \<^verbatim>\<open>try\<close> block of \<^verbatim>\<open>disassembleLine\<close> up to the assignment of \<open>text\<close>: the
  fetch of 10 bytes at \<open>pc\<close> and the decoding. It returns the text to append.
\<close>

definition fetchAndDecode ::
  "env \<Rightarrow> history \<Rightarrow> int \<Rightarrow> gdbThread \<Rightarrow> bool \<Rightarrow> history \<times> (thrown + string)" where
  "fetchAndDecode e h pc thread copper =
     (let h1 = h @ [GetMemory (Num pc) (Num 10)]
      in case gdb_getMemory e h (Num pc) (Num 10) of
           Inl err \<Rightarrow> (h1, Inl err)
         | Inr memory \<Rightarrow>
             if copper then
               (case disassembleCopper e memory of
                  Inl err \<Rightarrow> (h1, Inl err)
                | Inr lines \<Rightarrow> (h1, copperLineText lines))
             else if gdb_isCPUThread e thread then
               (case disassemble e memory None of
                  Inl err \<Rightarrow> (h1, Inl err)
                | Inr d \<Rightarrow> (h1, Inr (cpuLineText (dis_code d))))
             else (h1, Inr []))"

text \<open>
  \<^verbatim>\<open>disassembleLine(pc, thread)\<close>. The \<^verbatim>\<open>catch\<close> clause only logs, so the method
  always resolves.
\<close>

definition disassembleLine ::
  "env \<Rightarrow> dmState \<Rightarrow> int \<Rightarrow> gdbThread \<Rightarrow> dmState \<times> (thrown + disassembledLine)" where
  "disassembleLine e s pc thread =
     (case s of (h, cache) \<Rightarrow>
        (case cache pc of
           Some cached \<Rightarrow> ((h, cache), Inr cached)
         | None \<Rightarrow>
             (let text = formatAddress (Num pc) @ '': '';
                  copper = gdb_isCopperThread e thread
              in case fetchAndDecode e h pc thread copper of
                   (h1, Inl err) \<Rightarrow> ((h1, cache), Inr \<lparr>dl_text = text, dl_isCopper = copper\<rparr>)
                 | (h1, Inr t) \<Rightarrow>
                     (let line = \<lparr>dl_text = text @ t, dl_isCopper = copper\<rparr>
                      in ((h1, cache(pc \<mapsto> line)), Inr line)))))"

definition isCopperLine :: "lineCache \<Rightarrow> int \<Rightarrow> bool" where
  "isCopperLine cache pc = (case cache pc of None \<Rightarrow> False | Some l \<Rightarrow> dl_isCopper l)"

subsection \<open>Instructions of a segment or of a window\<close>

definition getCopperAddress :: "env \<Rightarrow> history \<Rightarrow> jsnum \<Rightarrow> history \<times> (thrown + jsnum)" where
  "getCopperAddress e h copperIndex =
     (let copperHigh = (if copperIndex = Num 1 then Num 0xdff080 else Num 0xdff084)
      in case gdb_getMemory e h copperHigh (Num 4) of
           Inl err \<Rightarrow> (h @ [GetMemory copperHigh (Num 4)], Inl err)
         | Inr memory \<Rightarrow> (h @ [GetMemory copperHigh (Num 4)], Inr (parseInt 16 memory)))"

text \<open>\<^verbatim>\<open>instructions.findIndex(pred)\<close>, None for \<open>-1\<close>.\<close>

fun findIndex :: "('a \<Rightarrow> bool) \<Rightarrow> 'a list \<Rightarrow> nat option" where
  "findIndex p [] = None"
| "findIndex p (x # xs) =
     (if p x then Some 0 else map_option Suc (findIndex p xs))"

definition getLineNumberInDisassembledSegment ::
  "env \<Rightarrow> history \<Rightarrow> int \<Rightarrow> int \<Rightarrow> history \<times> (thrown + int)" where
  "getLineNumberInDisassembledSegment e h segmentId offset =
     (let h1 = h @ [GetSegmentMemory (Num segmentId)]
      in case gdb_getSegmentMemory e h (Num segmentId) of
           Inl err \<Rightarrow> (h1, Inl err)
         | Inr memory \<Rightarrow>
             (case disassemble e memory None of
                Inl err \<Rightarrow> (h1, Inl err)
              | Inr d \<Rightarrow>
                  (case findIndex (\<lambda>instr. parseInt 0 (ins_address instr) = Num offset)
                          (dis_instructions d) of
                     None \<Rightarrow>
                       (h1, Inl (Error (''Cannot retrieve line for segment ''
                                  @ numToString 10 (Num segmentId) @ '', offset ''
                                  @ numToString 10 (Num offset) @ '': line not found'')))
                   | Some index \<Rightarrow> (h1, Inr (int index + 1)))))"

definition disassembleSegment ::
  "env \<Rightarrow> history \<Rightarrow> jsnum \<Rightarrow> history \<times> (thrown + instruction list)" where
  "disassembleSegment e h segmentId =
     (let h1 = h @ [GetSegmentMemory segmentId]
      in case gdb_getSegmentMemory e h segmentId of
           Inl err \<Rightarrow> (h1, Inl err)
         | Inr memory \<Rightarrow>
             (case gdb_toAbsoluteOffset e segmentId 0 of
                Inl err \<Rightarrow> (h1, Inl err)
              | Inr startAddress \<Rightarrow>
                  (case disassemble e memory (Some startAddress) of
                     Inl err \<Rightarrow> (h1, Inl err)
                   | Inr d \<Rightarrow> (h1, Inr (dis_instructions d)))))"

text \<open>Addition and truthiness of numbers.\<close>

definition jsAdd :: "jsnum \<Rightarrow> jsnum \<Rightarrow> jsnum" where
  "jsAdd a b = (case (a, b) of (Num x, Num y) \<Rightarrow> Num (x + y) | _ \<Rightarrow> NaN)"

definition truthy :: "jsnum \<Rightarrow> bool" where
  "truthy a = (case a of NaN \<Rightarrow> False | Num x \<Rightarrow> x \<noteq> 0)"

definition disassembleNumericalAddress ::
  "env \<Rightarrow> history \<Rightarrow> jsnum \<Rightarrow> jsnum \<Rightarrow> bool \<Rightarrow> history \<times> (thrown + instruction list)" where
  "disassembleNumericalAddress e h searchedAddress len copper =
     (let address = searchedAddress;
          h1 = h @ [IsConnected]
      in if \<not> gdb_isConnected e h then (h1, Inl (Error ''Debugger not started''))
         else
           (case gdb_getMemory e h1 address len of
              Inl err \<Rightarrow> (h1 @ [GetMemory address len], Inl err)
            | Inr memory \<Rightarrow>
                if copper then
                  (case disassembleCopper e memory of
                     Inl err \<Rightarrow> (h1 @ [GetMemory address len], Inl err)
                   | Inr insts \<Rightarrow>
                       (h1 @ [GetMemory address len],
                        Inr (map (\<lambda>(inst, i).
                               \<lparr>ins_address = formatHexadecimal (jsAdd address (Num (int i * 4))),
                                ins_instructionBytes = Some (ci_instructionBytes inst),
                                ins_instruction = ci_toString inst\<rparr>)
                             (zip insts [0..<length insts]))))
                else
                  (case disassemble e memory (Some address) of
                     Inl err \<Rightarrow> (h1 @ [GetMemory address len], Inl err)
                   | Inr d \<Rightarrow> (h1 @ [GetMemory address len], Inr (dis_instructions d)))))"

definition disassembleAddress ::
  "env \<Rightarrow> history \<Rightarrow> string \<Rightarrow> jsnum \<Rightarrow> jsnum option \<Rightarrow> bool
     \<Rightarrow> history \<times> (thrown + instruction list)" where
  "disassembleAddress e h addressExpression len offset copper =
     (case (if copper \<and> (addressExpression = ''1'' \<or> addressExpression = ''2'')
            then (case getCopperAddress e h (parseInt 0 addressExpression) of
                    (h1, Inl err) \<Rightarrow> (h1, Inl err)
                  | (h1, Inr a) \<Rightarrow> (h1, Inr (Some a)))
            else (h @ [Evaluate addressExpression], program_evaluate e h addressExpression)) of
        (h1, Inl err) \<Rightarrow> (h1, Inl err)
      | (h1, Inr None) \<Rightarrow>
          (h1, Inl (Error ''Unable to resolve address expression void returned''))
      | (h1, Inr (Some searchedAddress)) \<Rightarrow>
          disassembleNumericalAddress e h1
            (case offset of
               None \<Rightarrow> searchedAddress
             | Some off \<Rightarrow> if truthy off then jsAdd searchedAddress off else searchedAddress)
            len copper)"

subsection \<open>From an editor line to an address\<close>

text \<open>
  The instructions a file name stands for, as \<^verbatim>\<open>getAddressForFileEditorLine\<close>
  fetches them; None when \<open>instructions\<close> is left undefined.
\<close>

definition instructionsOfFile ::
  "env \<Rightarrow> history \<Rightarrow> string \<Rightarrow> disassembledFile \<Rightarrow> history \<times> (thrown + instruction list option)" where
  "instructionsOfFile e h filePath dAsmFile =
     (if isSegment dAsmFile then
        (case df_segmentId dAsmFile of
           Some segmentId \<Rightarrow>
             (case disassembleSegment e h segmentId of
                (h1, Inl err) \<Rightarrow> (h1, Inl err)
              | (h1, Inr instrs) \<Rightarrow> (h1, Inr (Some instrs)))
         | None \<Rightarrow> (h, Inl (Error (''SegmentId undefined in path '' @ filePath))))
      else
        (case (df_addressExpression dAsmFile, df_length dAsmFile) of
           (Some address, Some len) \<Rightarrow>
             (case disassembleAddress e h address len (Some (Num 0)) (isCopper dAsmFile) of
                (h1, Inl err) \<Rightarrow> (h1, Inl err)
              | (h1, Inr instrs) \<Rightarrow> (h1, Inr (Some instrs)))
         | _ \<Rightarrow> (h, Inr None)))"

definition getAddressForFileEditorLine ::
  "env \<Rightarrow> history \<Rightarrow> string \<Rightarrow> int \<Rightarrow> history \<times> (thrown + jsnum)" where
  "getAddressForFileEditorLine e h filePath lineNumber =
     (if lineNumber > 0 then
        (case fromPath filePath of
           Inl err \<Rightarrow> (h, Inl err)
         | Inr dAsmFile \<Rightarrow>
             (case instructionsOfFile e h filePath dAsmFile of
                (h1, Inl err) \<Rightarrow> (h1, Inl err)
              | (h1, Inr (Some instructions)) \<Rightarrow>
                  (let searchedLN = lineNumber - 1
                   in if searchedLN < int (length instructions) then
                        (h1, Inr (parseInt 16 (ins_address (instructions ! nat searchedLN))))
                      else
                        (h1, Inl (Error (''Searched line '' @ numToString 10 (Num searchedLN)
                               @ '' greater than file '' @ [CHR 0x22] @ filePath @ [CHR 0x22]
                               @ '' length: ''
                               @ numToString 10 (Num (int (length instructions)))))))
              | (h1, Inr None) \<Rightarrow>
                  (h1, Inl (Error (''Searched line '' @ numToString 10 (Num lineNumber)
                         @ '' has no instructions'')))))
      else (h, Inl (Error (''Invalid line number: '' @ [CHR 0x27] @ numToString 10 (Num lineNumber)
                     @ [CHR 0x27]))))"

subsection \<open>Stack frames\<close>

record gdbStackPosition =
  sp_index :: int
  sp_pc :: int

text \<open>
  A \<^verbatim>\<open>StackFrame\<close> of the debug adapter library. \<open>sf_source\<close>, \<open>sf_line\<close> and
  \<open>sf_column\<close> are None as long as \<^verbatim>\<open>getStackFrame\<close> does not assign them (the
  constructor's defaults stay).
\<close>

record frameSource =
  fs_name :: string
  fs_path :: string

record stackFrame =
  sf_id :: int
  sf_name :: string
  sf_instructionPointerReference :: string
  sf_source :: "frameSource option"
  sf_line :: "int option"
  sf_column :: "int option"

text \<open>
  The candidate line of a copper list:
  \<^verbatim>\<open>copAddr ? Math.floor((address - copAddr + 4) / 4) : -1\<close>.
\<close>

definition lineInCop :: "int \<Rightarrow> jsnum \<Rightarrow> int" where
  "lineInCop address copAddr =
     (case copAddr of
        NaN \<Rightarrow> - 1
      | Num c \<Rightarrow> if c \<noteq> 0 then (address - c + 4) div 4 else - 1)"

text \<open>
  The choice between the two copper lists: the new address and the line number,
  which start as \<open>address\<close> and 1.
\<close>

definition selectCopperList :: "int \<Rightarrow> jsnum \<Rightarrow> jsnum \<Rightarrow> jsnum \<times> int" where
  "selectCopperList address cop1Addr cop2Addr =
     (let lineInCop1 = lineInCop address cop1Addr;
          lineInCop2 = lineInCop address cop2Addr
      in if lineInCop1 \<ge> 0 \<and> (lineInCop2 = - 1 \<or> lineInCop1 \<le> lineInCop2)
         then (cop1Addr, lineInCop1)
         else if lineInCop2 \<ge> 0 then (cop2Addr, lineInCop2)
         else (Num address, 1))"

text \<open>
  Lines 199 to 243 of \<^verbatim>\<open>getStackFrame\<close>: the file of the frame and the local
  \<open>lineNumber\<close>.
\<close>

definition locateFrame ::
  "env \<Rightarrow> history \<Rightarrow> int \<Rightarrow> bool \<Rightarrow> disassembledFile
     \<Rightarrow> history \<times> (thrown + disassembledFile \<times> int)" where
  "locateFrame e h address copper dAsmFile =
     (case gdb_toRelativeOffset e address of
        (segmentId, offset) \<Rightarrow>
          if segmentId \<ge> 0 \<and> \<not> copper then
            (case getLineNumberInDisassembledSegment e h segmentId offset of
               (h1, Inl err) \<Rightarrow> (h1, Inr (setSegmentId (Num segmentId) dAsmFile, - 1))
             | (h1, Inr returnedLineNumber) \<Rightarrow>
                 (h1, Inr (setSegmentId (Num segmentId) dAsmFile, returnedLineNumber)))
          else if copper then
            (case getCopperAddress e h (Num 1) of
               (h1, Inl err) \<Rightarrow> (h1, Inl err)
             | (h1, Inr cop1Addr) \<Rightarrow>
                 (case getCopperAddress e h1 (Num 2) of
                    (h2, Inl err) \<Rightarrow> (h2, Inl err)
                  | (h2, Inr cop2Addr) \<Rightarrow>
                      (case selectCopperList address cop1Addr cop2Addr of
                         (newAddress, lineNumber) \<Rightarrow>
                           (h2, Inr (setAddressExpression (''$'' @ numToString 16 newAddress)
                                       dAsmFile, lineNumber)))))
          else (h, Inr (setAddressExpression (''$'' @ numToString 16 (Num address)) dAsmFile, 1)))"

definition getStackFrame ::
  "env \<Rightarrow> dmState \<Rightarrow> gdbStackPosition \<Rightarrow> gdbThread \<Rightarrow> dmState \<times> (thrown + stackFrame)" where
  "getStackFrame e s stackPosition thread =
     (let stackFrameIndex = sp_index stackPosition;
          address = sp_pc stackPosition
      in case disassembleLine e s address thread of
           (s1, Inl err) \<Rightarrow> (s1, Inl err)
         | ((h1, cache1), Inr line) \<Rightarrow>
             (let copper = dl_isCopper line;
                  dAsmFile = setLength (Num 500)
                               (setStackFrameIndex (Num stackFrameIndex)
                                 (setCopper copper newDisassembledFile))
              in case locateFrame e h1 address copper dAsmFile of
                   (h2, Inl err) \<Rightarrow> ((h2, cache1), Inl err)
                 | (h2, Inr (dAsmFile2, lineNumber)) \<Rightarrow>
                     (let sf = \<lparr>sf_id = stackFrameIndex, sf_name = dl_text line,
                                sf_instructionPointerReference = formatHexadecimal (Num address),
                                sf_source = None, sf_line = None, sf_column = None\<rparr>
                      in if lineNumber \<ge> 0 \<and> copper then
                           ((h2, cache1),
                            Inr (sf\<lparr>sf_source := Some \<lparr>fs_name = toString dAsmFile2,
                                                        fs_path = toURI dAsmFile2\<rparr>,
                                    sf_line := Some lineNumber, sf_column := Some 1\<rparr>))
                         else ((h2, cache1), Inr sf))))"

section \<open>Notions of the specification\<close>

text \<open>A decimal number, as the text of a numeric field: decimal digits, at least one.\<close>

definition isDecimalNumber :: "string \<Rightarrow> bool" where
  "isDecimalNumber s = (s \<noteq> [] \<and> list_all (isDigitOf 10) s)"

text \<open>
  A text that starts with a number for \<^verbatim>\<open>parseInt\<close> without radix: after leading
  white space and an optional sign comes a decimal digit, or \<^verbatim>\<open>0x\<close> and a
  hexadecimal digit.
\<close>

definition startsWithDigits :: "string \<Rightarrow> bool" where
  "startsWithDigits str =
     (let s = dropWhile isWhiteSpace str;
          s1 = (if take 1 s = ''-'' \<or> take 1 s = ''+'' then drop 1 s else s)
      in if take 2 s1 = ''0x'' \<or> take 2 s1 = ''0X''
         then (case drop 2 s1 of [] \<Rightarrow> False | c # _ \<Rightarrow> isDigitOf 16 c)
         else (case s1 of [] \<Rightarrow> False | c # _ \<Rightarrow> isDigitOf 10 c))"



section \<open>A sample session\<close>

text \<open>
  Collaborators to run the model on: a target whose copper list pointers read \<open>cop1\<close>
  and \<open>cop2\<close>, with one segment of two instructions mapped at \<open>0x2000\<close>, memory that
  cannot be read at address 0, thread 1 the coprocessor and thread 0 the CPU. The
  target refuses to set or remove a breakpoint at a negative offset.
\<close>

definition sampleInstructions :: "instruction list" where
  "sampleInstructions =
     [\<lparr>ins_address = ''0x0'', ins_instructionBytes = Some ''4e71'', ins_instruction = ''nop''\<rparr>,
      \<lparr>ins_address = ''0x2'', ins_instructionBytes = Some ''4e75'', ins_instruction = ''rts''\<rparr>]"

definition sampleEnv :: "string \<Rightarrow> string \<Rightarrow> env" where
  "sampleEnv cop1 cop2 =
     \<lparr>gdb_isConnected = (\<lambda>h. True),
      gdb_setBreakpoint = (\<lambda>h bp. if bp_offset bp < 0 then Some (Error ''E01'') else None),
      gdb_removeBreakpoint = (\<lambda>h bp. if bp_offset bp < 0 then Some (Error ''E01'') else None),
      gdb_getMemory =
        (\<lambda>h a n. if a = Num 0xdff080 then Inr cop1
                 else if a = Num 0xdff084 then Inr cop2
                 else if a = Num 0 then Inl (Error ''E03'')
                 else Inr ''018000002c01fffe0000''),
      gdb_getSegmentMemory = (\<lambda>h s. if s = Num 0 then Inr ''4e714e75'' else Inl (Error ''E10'')),
      gdb_toRelativeOffset =
        (\<lambda>a. if 0x2000 \<le> a \<and> a < 0x2004 then (0, a - 0x2000) else (- 1, a)),
      gdb_toAbsoluteOffset =
        (\<lambda>s off. if s = Num 0 then Inr (Num (0x2000 + off)) else Inl (Error ''E10'')),
      gdb_isCopperThread = (\<lambda>t. t = 1),
      gdb_isCPUThread = (\<lambda>t. t = 0),
      program_findLocationForLine =
        (\<lambda>h path line. if line = 10 then Inr (Some \<lparr>loc_segmentId = 0, loc_offset = 2\<rparr>)
                        else Inr None),
      program_getAddressForFileEditorLine = (\<lambda>h name line. Inr (0x2000 + 2 * (line - 1))),
      program_evaluate = (\<lambda>h expr. Inr (Some (parseInt 16 (drop 1 expr)))),
      mutex_capture = (\<lambda>h. None),
      isDisassembledFile = isDebugAsmFile,
      disassemble =
        (\<lambda>mem start. Inr \<lparr>dis_code = ''nop'' @ [CHR 0x0A] @ ''rts'',
                             dis_instructions = sampleInstructions\<rparr>),
      disassembleCopper =
        (\<lambda>mem. Inr [\<lparr>ci_instructionBytes = ''01800000'',
                        ci_toString = ''dc.w $0180,$0000    ; COLOR00 := 0x0000''\<rparr>])\<rparr>"




section \<open>Notions used to state the properties\<close>

text \<open>
  The candidate line of a copper list in the words of the specification: for a valid
  pointer, \<open>floor((address - pointer + 4) / 4)\<close>; a pointer that reads 0 or NaN is
  not valid and gives no candidate.
\<close>

definition candidateLine :: "int \<Rightarrow> jsnum \<Rightarrow> int option" where
  "candidateLine address pointer =
     (case pointer of
        NaN \<Rightarrow> None
      | Num p \<Rightarrow> if p = 0 then None else Some ((address - p + 4) div 4))"

text \<open>The file \<^verbatim>\<open>getStackFrame\<close> starts from, for the frame with index \<open>i\<close>.\<close>

definition frameFile :: "int \<Rightarrow> bool \<Rightarrow> disassembledFile" where
  "frameFile i copper =
     setLength (Num 500) (setStackFrameIndex (Num i) (setCopper copper newDisassembledFile))"

text \<open>The source of a coprocessor frame whose window starts at \<open>start\<close>.\<close>

definition copperWindow :: "int \<Rightarrow> jsnum \<Rightarrow> frameSource" where
  "copperWindow i start =
     (let f = setAddressExpression (''$'' @ numToString 16 start) (frameFile i True)
      in \<lparr>fs_name = toString f, fs_path = toURI f\<rparr>)"






section \<open>Properties of DisassembledFile\<close>

lemma takeWhile_Nil_iff:
  "takeWhile P xs = [] \<longleftrightarrow> (case xs of [] \<Rightarrow> True | x # _ \<Rightarrow> \<not> P x)"
  by (cases xs) auto

text \<open>\<^verbatim>\<open>parseInt\<close> without radix gives NaN exactly on a text that starts with no number.\<close>

lemma parseInt_NaN_iff: "parseInt 0 s = NaN \<longleftrightarrow> \<not> startsWithDigits s"
proof -
  define t where "t = dropWhile isWhiteSpace s"
  define s1 where "s1 = (if take 1 t = ''-'' \<or> take 1 t = ''+'' then drop 1 t else t)"
  define hex where "hex = (take 2 s1 = ''0x'' \<or> take 2 s1 = ''0X'')"
  have p: "parseInt 0 s = NaN \<longleftrightarrow>
      takeWhile (isDigitOf (if hex then 16 else 10)) (if hex then drop 2 s1 else s1) = []"
    by (simp add: parseInt_def Let_def t_def s1_def hex_def)
  have q: "startsWithDigits s \<longleftrightarrow>
      (case (if hex then drop 2 s1 else s1) of [] \<Rightarrow> False
       | c # _ \<Rightarrow> isDigitOf (if hex then 16 else 10) c)"
    by (simp add: startsWithDigits_def Let_def t_def s1_def hex_def)
  show ?thesis
    unfolding p q by (simp add: takeWhile_Nil_iff split: list.splits)
qed

text \<open>
  The patterns at work: the directory is the longest one possible; the dot before
  \<open>dbgasm\<close> stands for any character; a field cannot be empty or hold an underscore;
  the directory cannot hold a line break.
\<close>

lemma fromPath_examples:
  "fromPath ''dir/seg_/seg_7.dbgasm''
     = Inr (setSegmentId (Num 7) (setPath ''dir/seg_/'' newDisassembledFile))"
  "fromPath ''seg_3xdbgasm'' = Inr (setSegmentId (Num 3) newDisassembledFile)"
  "fromPath ''copper_1__8.dbgasm''
     = Inr (setCopper True (setLength (Num 8) (setAddressExpression ''1'' newDisassembledFile)))"
  "fromPath ''seg3.dbgasm'' = Inl (Error ''Unrecognised filename format seg3.dbgasm'')"
  "fromPath ''seg_.dbgasm'' = Inl (Error ''Unrecognised filename format seg_.dbgasm'')"
  "fromPath ''seg_1_2.dbgasm'' = Inl (Error ''Unrecognised filename format seg_1_2.dbgasm'')"
  "fromPath (''a'' @ [CHR 0x0A] @ ''/seg_1.dbgasm'')
     = Inl (Error (''Unrecognised filename format a'' @ [CHR 0x0A] @ ''/seg_1.dbgasm''))"
  by code_simp+

text \<open>
  C6: the three identities of the specification are encoded to the file names it gives
  and parsed back to themselves: segment 3 (a segment identity), the coprocessor window
  \<open>$400\<close> of length 20, and the window \<open>$1000\<close> of length 100 of frame 2.
\<close>

theorem disassembledFile_roundtrip_examples:
  "toString (setSegmentId (Num 3) newDisassembledFile) = ''seg_3.dbgasm'' \<and>
   fromPath ''seg_3.dbgasm'' = Inr (setSegmentId (Num 3) newDisassembledFile) \<and>
   isSegment (setSegmentId (Num 3) newDisassembledFile) \<and>
   toString (setCopper True (setLength (Num 20)
       (setAddressExpression ''$400'' newDisassembledFile)))
     = ''copper_$400__20.dbgasm'' \<and>
   fromPath ''copper_$400__20.dbgasm''
     = Inr (setCopper True (setLength (Num 20)
         (setAddressExpression ''$400'' newDisassembledFile))) \<and>
   toString (setLength (Num 100) (setAddressExpression ''$1000''
       (setStackFrameIndex (Num 2) newDisassembledFile)))
     = ''2__$1000__100.dbgasm'' \<and>
   fromPath ''2__$1000__100.dbgasm''
     = Inr (setLength (Num 100) (setAddressExpression ''$1000''
         (setStackFrameIndex (Num 2) newDisassembledFile)))"
  by code_simp

lemma count_list_pos: "1 \<le> count_list s c \<longleftrightarrow> c \<in> set s"
  by (induction s) auto

text \<open>
  What \<^verbatim>\<open>replace("#", "%23")\<close> leaves: a \<open>#\<close> stays in the result exactly when
  the text holds two or more.
\<close>

lemma replaceFirst_hash:
  "CHR ''#'' \<in> set (replaceFirst ''#'' ''%23'' s) \<longleftrightarrow> 2 \<le> count_list s CHR ''#''"
proof (induction s)
  case Nil
  show ?case by simp
next
  case (Cons c s)
  show ?case
  proof (cases "c = CHR ''#''")
    case True
    then show ?thesis using count_list_pos [of s "CHR ''#''"] by auto
  next
    case False
    then show ?thesis using Cons.IH by simp
  qed
qed

lemma toURI_hash:
  "CHR ''#'' \<in> set (toURI f) \<longleftrightarrow> 2 \<le> count_list (toString f) CHR ''#''"
  by (simp add: toURI_def replaceFirst_hash)

text \<open>
  C9: \<^verbatim>\<open>toURI\<close> encodes the first \<open>#\<close> of the file name only. The file parsed from
  a path with two of them, \<open>/c#/a#/seg_0.dbgasm\<close>, has a locator that still holds
  a \<open>#\<close>.
\<close>

theorem toURI_leaves_second_hash:
  "map_sum id toURI (fromPath ''/c#/a#/seg_0.dbgasm'') = Inr ''disassembly:/c%23/a#/seg_0.dbgasm'' \<and>
   CHR ''#'' \<in> set ''disassembly:/c%23/a#/seg_0.dbgasm''"
  by code_simp

text \<open>
  C10, as the claim states it, fails on \<open>seg_3x.dbgasm\<close>: the pattern of a segment
  matches, the field \<open>3x\<close> is not a decimal number, and the segment parsed is 3, not
  NaN.
\<close>

theorem fromPath_numeric_prefix:
  "matchStart segRe ''seg_3x.dbgasm'' = Some [(''segmentId'', ''3x'')] \<and>
   \<not> isDecimalNumber ''3x'' \<and>
   fromPath ''seg_3x.dbgasm'' = Inr (setSegmentId (Num 3) newDisassembledFile) \<and>
   Some (Num 3) \<noteq> Some NaN"
  by code_simp

text \<open>
  C10, amended: \<^verbatim>\<open>fromPath\<close> raises its error exactly when none of the three
  patterns matches. When a pattern matches, parsing succeeds whatever the numeric
  fields hold: each is \<^verbatim>\<open>parseInt\<close> of the text captured, which is NaN exactly when
  that text starts with no number; a path of the segment shape gives a segment
  identity also then.
\<close>

theorem fromPath_checks_shape_only:
  "((\<exists>err. fromPath p = Inl err) \<longleftrightarrow>
      matchStart segRe p = None \<and> matchStart copperRe p = None \<and> matchStart addressRe p = None) \<and>
   (\<forall>g. matchStart segRe p = Some g \<longrightarrow>
      (\<exists>f. fromPath p = Inr f \<and> isSegment f \<and>
           df_segmentId f = Some (parseInt 0 (tmplStr (grp g ''segmentId''))) \<and>
           (df_segmentId f = Some NaN
              \<longleftrightarrow> \<not> startsWithDigits (tmplStr (grp g ''segmentId''))))) \<and>
   (\<forall>g. matchStart segRe p = None \<and> matchStart copperRe p = Some g \<longrightarrow>
      (\<exists>f. fromPath p = Inr f \<and> isCopper f \<and>
           df_length f = Some (parseInt 0 (tmplStr (grp g ''length''))) \<and>
           (df_length f = Some NaN \<longleftrightarrow> \<not> startsWithDigits (tmplStr (grp g ''length''))))) \<and>
   (\<forall>g. matchStart segRe p = None \<and> matchStart copperRe p = None \<and>
        matchStart addressRe p = Some g \<longrightarrow>
      (\<exists>f. fromPath p = Inr f \<and>
           df_stackFrameIndex f = Some (parseInt 0 (tmplStr (grp g ''frame''))) \<and>
           df_length f = Some (parseInt 0 (tmplStr (grp g ''length''))) \<and>
           (df_stackFrameIndex f = Some NaN
              \<longleftrightarrow> \<not> startsWithDigits (tmplStr (grp g ''frame''))) \<and>
           (df_length f = Some NaN \<longleftrightarrow> \<not> startsWithDigits (tmplStr (grp g ''length'')))))"
  by (auto simp: fromPath_def isSegment_def isCopper_def setSegmentId_def setPath_def
        setCopper_def setLength_def setAddressExpression_def setStackFrameIndex_def
        parseInt_NaN_iff
      split: option.splits)

theorem fromPath_checks_shape_only_witness:
  "matchStart segRe ''seg_x.dbgasm'' = Some [(''segmentId'', ''x'')] \<and>
   \<not> startsWithDigits ''x'' \<and>
   (\<exists>f. fromPath ''seg_x.dbgasm'' = Inr f \<and> isSegment f \<and> df_segmentId f = Some NaN)"
proof -
  have m: "matchStart segRe ''seg_x.dbgasm'' = Some [(''segmentId'', ''x'')]"
    by code_simp
  have n: "tmplStr (grp [(''segmentId'', ''x'')] ''segmentId'') = ''x''"
    by code_simp
  have d: "\<not> startsWithDigits ''x''"
    by code_simp
  from fromPath_checks_shape_only [of "''seg_x.dbgasm''"] m n d show ?thesis
    by auto
qed

section \<open>Properties of DisassemblyManager\<close>

subsection \<open>The sample session\<close>

lemma sample_threads:
  "gdb_isCopperThread (sampleEnv c1 c2) t = (t = 1)"
  "gdb_isCPUThread (sampleEnv c1 c2) t = (t = 0)"
  by (simp_all add: sampleEnv_def)

lemma sample_getCopperAddress:
  "getCopperAddress (sampleEnv c1 c2) h (Num 1)
     = (h @ [GetMemory (Num 0xdff080) (Num 4)], Inr (parseInt 16 c1))"
  "getCopperAddress (sampleEnv c1 c2) h (Num 2)
     = (h @ [GetMemory (Num 0xdff084) (Num 4)], Inr (parseInt 16 c2))"
  by (simp_all add: getCopperAddress_def sampleEnv_def)

lemma sample_pointers:
  "parseInt 16 ''00001000'' = Num 0x1000" "parseInt 16 ''00000000'' = Num 0"
  by code_simp+

lemma sample_segment:
  "gdb_toRelativeOffset (sampleEnv c1 c2) 0x2002 = (0, 2)"
  "gdb_getSegmentMemory (sampleEnv c1 c2) h (Num 0) = Inr ''4e714e75''"
  "disassemble (sampleEnv c1 c2) mem start
     = Inr \<lparr>dis_code = ''nop'' @ [CHR 0x0A] @ ''rts'', dis_instructions = sampleInstructions\<rparr>"
  by (simp_all add: sampleEnv_def)

lemma sample_offsets:
  "length sampleInstructions = 2"
  "parseInt 0 (ins_address (sampleInstructions ! 0)) = Num 0"
  "parseInt 0 (ins_address (sampleInstructions ! Suc 0)) = Num 2"
  by code_simp+

subsection \<open>The line cache\<close>




text \<open>\<^verbatim>\<open>disassembleLine\<close> always resolves.\<close>

lemma disassembleLine_resolves:
  "\<exists>h1 cache1 line. disassembleLine e s pc thread = ((h1, cache1), Inr line) \<and>
     (snd s pc = None \<longrightarrow> dl_isCopper line = gdb_isCopperThread e thread)"
  by (cases s) (auto simp: disassembleLine_def Let_def split: option.splits prod.splits sum.splits)




subsection \<open>Stack frames of the coprocessor\<close>

lemma lineInCop_candidate:
  "lineInCop a p = (case candidateLine a p of None \<Rightarrow> - 1 | Some c \<Rightarrow> c)"
  by (simp add: lineInCop_def candidateLine_def split: jsnum.splits)

lemma selectCopperList_cases:
  "selectCopperList pc cop1 cop2 =
     (case (candidateLine pc cop1, candidateLine pc cop2) of
        (None, None) \<Rightarrow> (Num pc, 1)
      | (None, Some c2) \<Rightarrow> if 0 \<le> c2 then (cop2, c2) else (Num pc, 1)
      | (Some c1, None) \<Rightarrow> if 0 \<le> c1 then (cop1, c1) else (Num pc, 1)
      | (Some c1, Some c2) \<Rightarrow>
          if 0 \<le> c1 \<and> (c2 = - 1 \<or> c1 \<le> c2) then (cop1, c1)
          else if 0 \<le> c2 then (cop2, c2) else (Num pc, 1))"
  by (auto simp: selectCopperList_def lineInCop_candidate Let_def split: option.splits)

lemma getStackFrame_copper:
  assumes "disassembleLine e s pc thread = ((h1, cache1), Inr line)" and "dl_isCopper line"
    and "getCopperAddress e h1 (Num 1) = (h2, Inr cop1)"
    and "getCopperAddress e h2 (Num 2) = (h3, Inr cop2)"
    and "selectCopperList pc cop1 cop2 = (a, n)"
  shows "getStackFrame e s \<lparr>sp_index = i, sp_pc = pc\<rparr> thread =
     ((h3, cache1),
      Inr (if 0 \<le> n then
             \<lparr>sf_id = i, sf_name = dl_text line,
              sf_instructionPointerReference = formatHexadecimal (Num pc),
              sf_source = Some (copperWindow i a), sf_line = Some n, sf_column = Some 1\<rparr>
           else
             \<lparr>sf_id = i, sf_name = dl_text line,
              sf_instructionPointerReference = formatHexadecimal (Num pc),
              sf_source = None, sf_line = None, sf_column = None\<rparr>))"
  using assms
  by (simp add: getStackFrame_def locateFrame_def Let_def copperWindow_def frameFile_def
      split: prod.splits)

text \<open>
  C1, as the claim states it, fails when neither list gives a candidate: with both
  pointers reading 0 the frame of the coprocessor at \<open>0x1010\<close> has line 1, in the
  window that starts at \<open>0x1010\<close>.
\<close>

theorem copper_frame_without_candidate:
  "candidateLine 0x1010 (Num 0) = None \<and>
   getCopperAddress (sampleEnv ''00000000'' ''00000000'') [GetMemory (Num 0x1010) (Num 10)] (Num 1)
     = ([GetMemory (Num 0x1010) (Num 10), GetMemory (Num 0xdff080) (Num 4)], Inr (Num 0)) \<and>
   getCopperAddress (sampleEnv ''00000000'' ''00000000'')
       [GetMemory (Num 0x1010) (Num 10), GetMemory (Num 0xdff080) (Num 4)] (Num 2)
     = ([GetMemory (Num 0x1010) (Num 10), GetMemory (Num 0xdff080) (Num 4),
         GetMemory (Num 0xdff084) (Num 4)], Inr (Num 0)) \<and>
   snd (getStackFrame (sampleEnv ''00000000'' ''00000000'') ([], Map.empty)
          \<lparr>sp_index = 0, sp_pc = 0x1010\<rparr> 1)
     = Inr \<lparr>sf_id = 0, sf_name = ''$1010: dc.w $0180,$0000'',
            sf_instructionPointerReference = ''0x00001010'',
            sf_source = Some \<lparr>fs_name = ''copper_$1010__500.dbgasm'',
                               fs_path = ''disassembly:copper_$1010__500.dbgasm''\<rparr>,
            sf_line = Some 1, sf_column = Some 1\<rparr>"
  by code_simp

text \<open>
  The example of the specification, with list 1 at \<open>0x1000\<close>, list 2 at \<open>0x2000\<close>
  and the coprocessor at \<open>0x1010\<close>: the candidate of list 1 is 5, the candidate of
  list 2 is \<open>-1019\<close>. It is neither \<open>-1\<close> nor at least 5, so the test of the code
  rejects list 1, and the frame has line 1 in the window that starts at \<open>0x1010\<close>.
\<close>

lemma copper_frame_of_the_example:
  "candidateLine 0x1010 (Num 0x1000) = Some 5 \<and>
   candidateLine 0x1010 (Num 0x2000) = Some (- 1019) \<and>
   snd (getStackFrame (sampleEnv ''00001000'' ''00002000'') ([], Map.empty)
          \<lparr>sp_index = 0, sp_pc = 0x1010\<rparr> 1)
     = Inr \<lparr>sf_id = 0, sf_name = ''$1010: dc.w $0180,$0000'',
            sf_instructionPointerReference = ''0x00001010'',
            sf_source = Some \<lparr>fs_name = ''copper_$1010__500.dbgasm'',
                               fs_path = ''disassembly:copper_$1010__500.dbgasm''\<rparr>,
            sf_line = Some 1, sf_column = Some 1\<rparr>"
  by code_simp

text \<open>
  C1, amended: when both pointers are read, the frame of a coprocessor line always
  has a line. With the candidates of the specification: list 1 is chosen when its
  candidate is at least 0 and list 2 has no candidate or one that is not smaller;
  list 2 is chosen when its candidate is at least 0 and list 1 is not chosen for
  that reason; when no list has a candidate that is at least 0, the line is 1 in the
  window that starts at the address itself.
\<close>

theorem getStackFrame_copper_line:
  assumes line: "disassembleLine e s pc thread = ((h1, cache1), Inr line)"
    and cop: "dl_isCopper line"
    and p1: "getCopperAddress e h1 (Num 1) = (h2, Inr cop1)"
    and p2: "getCopperAddress e h2 (Num 2) = (h3, Inr cop2)"
  shows "\<exists>frame. getStackFrame e s \<lparr>sp_index = i, sp_pc = pc\<rparr> thread
                   = ((h3, cache1), Inr frame) \<and>
     sf_line frame \<noteq> None \<and>
     (\<forall>c1. candidateLine pc cop1 = Some c1 \<and> 0 \<le> c1 \<and>
            (candidateLine pc cop2 = None \<or> (\<exists>c2. candidateLine pc cop2 = Some c2 \<and> c1 \<le> c2))
         \<longrightarrow> sf_line frame = Some c1 \<and> sf_source frame = Some (copperWindow i cop1)) \<and>
     (\<forall>c2. candidateLine pc cop2 = Some c2 \<and> 0 \<le> c2 \<and>
            \<not> (\<exists>c1. candidateLine pc cop1 = Some c1 \<and> 0 \<le> c1 \<and> c1 \<le> c2)
         \<longrightarrow> sf_line frame = Some c2 \<and> sf_source frame = Some (copperWindow i cop2)) \<and>
     ((\<forall>c. candidateLine pc cop1 = Some c \<longrightarrow> c < 0) \<and>
      (\<forall>c. candidateLine pc cop2 = Some c \<longrightarrow> c < 0)
         \<longrightarrow> sf_line frame = Some 1 \<and> sf_source frame = Some (copperWindow i (Num pc)))"
proof -
  obtain a n where sel: "selectCopperList pc cop1 cop2 = (a, n)"
    by (cases "selectCopperList pc cop1 cop2")
  have nonneg: "0 \<le> n"
    using sel by (auto simp: selectCopperList_def Let_def split: if_splits)
  note fr = getStackFrame_copper [OF line cop p1 p2 sel, of i]
  show ?thesis
    using sel nonneg unfolding fr selectCopperList_cases
    by (auto split: option.splits if_splits)
qed

theorem getStackFrame_copper_line_witness:
  "candidateLine 0x1010 (Num 0x1000) = Some 5 \<and> candidateLine 0x1010 (Num 0) = None \<and>
   (\<exists>s frame. getStackFrame (sampleEnv ''00001000'' ''00000000'') ([], Map.empty)
                 \<lparr>sp_index = 0, sp_pc = 0x1010\<rparr> 1 = (s, Inr frame) \<and>
               sf_line frame = Some 5 \<and> sf_source frame = Some (copperWindow 0 (Num 0x1000)))"
proof -
  let ?e = "sampleEnv ''00001000'' ''00000000''"
  obtain h1 cache1 line where
    l: "disassembleLine ?e ([], Map.empty) 0x1010 1 = ((h1, cache1), Inr line)"
    and c: "dl_isCopper line"
    using disassembleLine_resolves [of ?e "([], Map.empty)" "0x1010" 1]
    by (auto simp: sample_threads)
  have p1: "getCopperAddress ?e h1 (Num 1)
      = (h1 @ [GetMemory (Num 0xdff080) (Num 4)], Inr (Num 0x1000))"
    by (simp add: sample_getCopperAddress sample_pointers)
  have p2: "getCopperAddress ?e (h1 @ [GetMemory (Num 0xdff080) (Num 4)]) (Num 2)
      = (h1 @ [GetMemory (Num 0xdff080) (Num 4)] @ [GetMemory (Num 0xdff084) (Num 4)],
         Inr (Num 0))"
    by (simp add: sample_getCopperAddress sample_pointers)
  have k: "candidateLine 0x1010 (Num 0x1000) = Some 5" "candidateLine 0x1010 (Num 0) = None"
    by (simp_all add: candidateLine_def)
  from getStackFrame_copper_line [OF l c p1 p2, of 0] k show ?thesis
    by auto
qed

subsection \<open>Stack frames inside a segment\<close>

lemma findIndex_None_iff: "findIndex p xs = None \<longleftrightarrow> (\<forall>x\<in>set xs. \<not> p x)"
  by (induction xs) auto

text \<open>\<^verbatim>\<open>findIndex\<close> gives the first position that satisfies the test.\<close>

lemma findIndex_Some_iff:
  "findIndex p xs = Some k \<longleftrightarrow> k < length xs \<and> p (xs ! k) \<and> (\<forall>j<k. \<not> p (xs ! j))"
proof (induction xs arbitrary: k)
  case Nil
  show ?case by simp
next
  case (Cons x xs)
  show ?case
  proof (cases "p x")
    case True
    then show ?thesis by (cases k) auto
  next
    case False
    show ?thesis
    proof (cases k)
      case 0
      with False show ?thesis by auto
    next
      case (Suc m)
      have "(\<forall>j<Suc m. \<not> p ((x # xs) ! j)) \<longleftrightarrow> (\<forall>j<m. \<not> p (xs ! j))"
        using False by (auto simp: less_Suc_eq_0_disj)
      with False Suc Cons.IH [of m] show ?thesis by auto
    qed
  qed
qed

lemma segment_line_cases:
  "getLineNumberInDisassembledSegment e h segmentId offset =
     (h @ [GetSegmentMemory (Num segmentId)],
      (case gdb_getSegmentMemory e h (Num segmentId) of
         Inl err \<Rightarrow> Inl err
       | Inr memory \<Rightarrow>
           (case disassemble e memory None of
              Inl err \<Rightarrow> Inl err
            | Inr d \<Rightarrow>
                (case findIndex (\<lambda>instr. parseInt 0 (ins_address instr) = Num offset)
                        (dis_instructions d) of
                   None \<Rightarrow> Inl (Error (''Cannot retrieve line for segment ''
                                  @ numToString 10 (Num segmentId) @ '', offset ''
                                  @ numToString 10 (Num offset) @ '': line not found''))
                 | Some index \<Rightarrow> Inr (int index + 1)))))"
  by (simp add: getLineNumberInDisassembledSegment_def Let_def split: sum.splits option.splits)

lemma locateFrame_segment:
  assumes "gdb_toRelativeOffset e pc = (segmentId, offset)" and "0 \<le> segmentId"
  shows "locateFrame e h pc False f =
     (h @ [GetSegmentMemory (Num segmentId)],
      Inr (setSegmentId (Num segmentId) f,
           (case snd (getLineNumberInDisassembledSegment e h segmentId offset) of
              Inl err \<Rightarrow> - 1 | Inr n \<Rightarrow> n)))"
  using assms
  by (simp add: locateFrame_def segment_line_cases split: sum.splits option.splits)

lemma getStackFrame_cpu:
  assumes "disassembleLine e s pc thread = ((h1, cache1), Inr line)" and "\<not> dl_isCopper line"
    and "locateFrame e h1 pc False (frameFile i False) = (h2, Inr (f, n))"
  shows "getStackFrame e s \<lparr>sp_index = i, sp_pc = pc\<rparr> thread =
     ((h2, cache1),
      Inr \<lparr>sf_id = i, sf_name = dl_text line,
            sf_instructionPointerReference = formatHexadecimal (Num pc),
            sf_source = None, sf_line = None, sf_column = None\<rparr>)"
  using assms by (simp add: getStackFrame_def Let_def frameFile_def)

text \<open>
  C7, as the claim states it, fails on the sample session: \<open>0x2002\<close> is offset 2 of
  segment 0, the thread is the CPU, the instruction at offset 2 is the second of the
  segment, and the frame returned has no line (and no source), not line 2.
\<close>

theorem cpu_frame_has_no_line:
  "gdb_toRelativeOffset (sampleEnv [] []) 0x2002 = (0, 2) \<and>
   \<not> gdb_isCopperThread (sampleEnv [] []) 0 \<and>
   findIndex (\<lambda>instr. parseInt 0 (ins_address instr) = Num 2) sampleInstructions = Some 1 \<and>
   snd (getStackFrame (sampleEnv [] []) ([], Map.empty) \<lparr>sp_index = 0, sp_pc = 0x2002\<rparr> 0)
     = Inr \<lparr>sf_id = 0, sf_name = ''$2002: nop'',
            sf_instructionPointerReference = ''0x00002002'',
            sf_source = None, sf_line = None, sf_column = None\<rparr> \<and>
   (None :: int option) \<noteq> Some 2"
  by code_simp

text \<open>
  C7, amended: for a line that is not of the coprocessor, at an address inside a
  segment, \<^verbatim>\<open>getStackFrame\<close> does not fail and returns a frame without source, line
  and column. The line number it works out on the way, beside the file of the segment,
  is the position, counted from 1, of the first instruction of the decoded segment
  whose address is the offset, and \<open>-1\<close> when no instruction has that address or the
  segment cannot be fetched or decoded; it is not put on the frame.
\<close>

theorem getStackFrame_segment_line:
  assumes line: "disassembleLine e s pc thread = ((h1, cache1), Inr line)"
    and cpu: "\<not> dl_isCopper line"
    and seg: "gdb_toRelativeOffset e pc = (segmentId, offset)" and inseg: "0 \<le> segmentId"
  shows "\<exists>h2 frame f n.
     getStackFrame e s \<lparr>sp_index = i, sp_pc = pc\<rparr> thread = ((h2, cache1), Inr frame) \<and>
     sf_line frame = None \<and> sf_source frame = None \<and> sf_column frame = None \<and>
     locateFrame e h1 pc False (frameFile i False) = (h2, Inr (f, n)) \<and>
     df_segmentId f = Some (Num segmentId) \<and>
     (\<forall>memory d.
        gdb_getSegmentMemory e h1 (Num segmentId) = Inr memory \<and> disassemble e memory None = Inr d
        \<longrightarrow>
        (\<forall>k. k < length (dis_instructions d) \<and>
              parseInt 0 (ins_address (dis_instructions d ! k)) = Num offset \<and>
              (\<forall>j<k. parseInt 0 (ins_address (dis_instructions d ! j)) \<noteq> Num offset)
           \<longrightarrow> n = int k + 1) \<and>
        ((\<forall>instr\<in>set (dis_instructions d). parseInt 0 (ins_address instr) \<noteq> Num offset)
           \<longrightarrow> n = - 1)) \<and>
     ((\<exists>err. gdb_getSegmentMemory e h1 (Num segmentId) = Inl err) \<longrightarrow> n = - 1) \<and>
     (\<forall>memory. gdb_getSegmentMemory e h1 (Num segmentId) = Inr memory \<and>
               (\<exists>err. disassemble e memory None = Inl err) \<longrightarrow> n = - 1)"
proof -
  define n where "n = (case snd (getLineNumberInDisassembledSegment e h1 segmentId offset) of
              Inl err \<Rightarrow> - 1 | Inr n \<Rightarrow> n)"
  define f where "f = setSegmentId (Num segmentId) (frameFile i False)"
  define h2 where "h2 = h1 @ [GetSegmentMemory (Num segmentId)]"
  have loc: "locateFrame e h1 pc False (frameFile i False) = (h2, Inr (f, n))"
    using locateFrame_segment [OF seg inseg] by (simp add: n_def f_def h2_def)
  note fr = getStackFrame_cpu [OF line cpu loc]
  have found: "n = int k + 1"
    if "gdb_getSegmentMemory e h1 (Num segmentId) = Inr memory" "disassemble e memory None = Inr d"
      "k < length (dis_instructions d)"
      "parseInt 0 (ins_address (dis_instructions d ! k)) = Num offset"
      "\<forall>j<k. parseInt 0 (ins_address (dis_instructions d ! j)) \<noteq> Num offset"
    for memory d k
  proof -
    have "findIndex (\<lambda>instr. parseInt 0 (ins_address instr) = Num offset) (dis_instructions d)
            = Some k"
      using that by (simp add: findIndex_Some_iff)
    then show ?thesis using that by (simp add: n_def segment_line_cases)
  qed
  have absent: "n = - 1"
    if "gdb_getSegmentMemory e h1 (Num segmentId) = Inr memory" "disassemble e memory None = Inr d"
      "\<forall>instr\<in>set (dis_instructions d). parseInt 0 (ins_address instr) \<noteq> Num offset"
    for memory d
  proof -
    have "findIndex (\<lambda>instr. parseInt 0 (ins_address instr) = Num offset) (dis_instructions d)
            = None"
      using that by (simp add: findIndex_None_iff)
    then show ?thesis using that by (simp add: n_def segment_line_cases)
  qed
  have nomem: "n = - 1" if "gdb_getSegmentMemory e h1 (Num segmentId) = Inl err" for err
    using that by (simp add: n_def segment_line_cases)
  have nodec: "n = - 1"
    if "gdb_getSegmentMemory e h1 (Num segmentId) = Inr memory" "disassemble e memory None = Inl err"
    for memory err
    using that by (simp add: n_def segment_line_cases)
  have "df_segmentId f = Some (Num segmentId)"
    by (simp add: f_def setSegmentId_def)
  then show ?thesis
    apply (intro exI conjI)
            apply (rule fr)
           apply simp
          apply simp
         apply simp
        apply (rule loc)
       apply assumption
      apply (intro allI impI conjI)
       apply (blast intro: found)
      apply (blast intro: absent)
     apply (blast intro: nomem)
    apply (blast intro: nodec)
    done
qed

theorem getStackFrame_segment_line_witness:
  "gdb_toRelativeOffset (sampleEnv [] []) 0x2002 = (0, 2) \<and>
   (\<exists>h1 h2 cache1 frame f.
      getStackFrame (sampleEnv [] []) ([], Map.empty) \<lparr>sp_index = 0, sp_pc = 0x2002\<rparr> 0
        = ((h2, cache1), Inr frame) \<and>
      sf_line frame = None \<and> sf_source frame = None \<and>
      locateFrame (sampleEnv [] []) h1 0x2002 False (frameFile 0 False) = (h2, Inr (f, 2)) \<and>
      df_segmentId f = Some (Num 0))"
proof -
  let ?e = "sampleEnv [] []"
  obtain h1 cache1 line where
    l: "disassembleLine ?e ([], Map.empty) 0x2002 0 = ((h1, cache1), Inr line)"
    and c: "\<not> dl_isCopper line"
    using disassembleLine_resolves [of ?e "([], Map.empty)" "0x2002" 0]
    by (auto simp: sample_threads)
  have s: "gdb_toRelativeOffset ?e 0x2002 = (0, 2)"
    by (rule sample_segment)
  have z: "(0::int) \<le> 0"
    by simp
  from getStackFrame_segment_line [OF l c s z, of 0]
  obtain h2 frame f n where
    fr: "getStackFrame ?e ([], Map.empty) \<lparr>sp_index = 0, sp_pc = 0x2002\<rparr> 0
           = ((h2, cache1), Inr frame)"
      "sf_line frame = None" "sf_source frame = None" "sf_column frame = None"
      "locateFrame ?e h1 0x2002 False (frameFile 0 False) = (h2, Inr (f, n))"
      "df_segmentId f = Some (Num 0)"
    and idx: "\<forall>memory d.
        gdb_getSegmentMemory ?e h1 (Num 0) = Inr memory \<and> disassemble ?e memory None = Inr d
        \<longrightarrow>
        (\<forall>k. k < length (dis_instructions d) \<and>
              parseInt 0 (ins_address (dis_instructions d ! k)) = Num 2 \<and>
              (\<forall>j<k. parseInt 0 (ins_address (dis_instructions d ! j)) \<noteq> Num 2)
           \<longrightarrow> n = int k + 1) \<and>
        ((\<forall>instr\<in>set (dis_instructions d). parseInt 0 (ins_address instr) \<noteq> Num 2)
           \<longrightarrow> n = - 1)"
    by (elim exE conjE) (rule that)
  have "\<forall>k. k < length sampleInstructions \<and>
              parseInt 0 (ins_address (sampleInstructions ! k)) = Num 2 \<and>
              (\<forall>j<k. parseInt 0 (ins_address (sampleInstructions ! j)) \<noteq> Num 2)
           \<longrightarrow> n = int k + 1"
    using idx [rule_format, of "''4e714e75''"
        "\<lparr>dis_code = ''nop'' @ [CHR 0x0A] @ ''rts'', dis_instructions = sampleInstructions\<rparr>"]
    by (simp add: sample_segment)
  from this [rule_format, of 1]
  have "n = int 1 + 1"
    by (simp add: sample_offsets)
  with fr s show ?thesis by auto
qed

subsection \<open>From an editor line to an address\<close>

text \<open>
  The outcomes of \<^verbatim>\<open>getAddressForFileEditorLine\<close>: it throws for a line number
  that is not positive, for a path that matches no pattern, and when the instructions
  of the file cannot be produced; with the instructions at hand it returns the address
  of the instruction at the line, and throws when the line is beyond the last
  instruction, with a message made of the line number less one and of the number of
  instructions.
\<close>

lemma getAddressForFileEditorLine_cases:
  "(lineNumber \<le> 0 \<longrightarrow>
      getAddressForFileEditorLine e h filePath lineNumber
        = (h, Inl (Error (''Invalid line number: '' @ [CHR 0x27] @ numToString 10 (Num lineNumber)
                          @ [CHR 0x27])))) \<and>
   (\<forall>err. 0 < lineNumber \<and> fromPath filePath = Inl err \<longrightarrow>
      getAddressForFileEditorLine e h filePath lineNumber = (h, Inl err)) \<and>
   (\<forall>f h1 err. 0 < lineNumber \<and> fromPath filePath = Inr f \<and>
        instructionsOfFile e h filePath f = (h1, Inl err) \<longrightarrow>
      getAddressForFileEditorLine e h filePath lineNumber = (h1, Inl err)) \<and>
   (\<forall>f h1 instrs. 0 < lineNumber \<and> fromPath filePath = Inr f \<and>
        instructionsOfFile e h filePath f = (h1, Inr (Some instrs)) \<longrightarrow>
      (lineNumber \<le> int (length instrs) \<longrightarrow>
         getAddressForFileEditorLine e h filePath lineNumber
           = (h1, Inr (parseInt 16 (ins_address (instrs ! nat (lineNumber - 1)))))) \<and>
      (int (length instrs) < lineNumber \<longrightarrow>
         getAddressForFileEditorLine e h filePath lineNumber
           = (h1, Inl (Error (''Searched line '' @ numToString 10 (Num (lineNumber - 1))
                  @ '' greater than file '' @ [CHR 0x22] @ filePath @ [CHR 0x22]
                  @ '' length: '' @ numToString 10 (Num (int (length instrs))))))))"
  by (simp add: getAddressForFileEditorLine_def Let_def)

text \<open>
  C8: asked for line 3 of the file of segment 0, which decodes to 2 instructions,
  \<^verbatim>\<open>getAddressForFileEditorLine\<close> fails with a message that names line 2 and the
  length 2: the line it reports is the line asked for less one.
\<close>

theorem line_beyond_file_reports_index:
  "length sampleInstructions = 2 \<and>
   getAddressForFileEditorLine (sampleEnv [] []) [] ''seg_0.dbgasm'' 3
     = ([GetSegmentMemory (Num 0)],
        Inl (Error (''Searched line 2 greater than file '' @ [CHR 0x22] @ ''seg_0.dbgasm''
                    @ [CHR 0x22] @ '' length: 2'')))"
  by code_simp

section \<open>Properties of BreakpointManager\<close>



subsection \<open>Setting one breakpoint\<close>












subsection \<open>Flushing the pending queue\<close>






subsection \<open>Clearing breakpoints of one kind\<close>








text \<open>The entries a clearing selects: by kind, and by file when a source is given.\<close>

lemma selected_cases:
  "selected e ty None bp \<longleftrightarrow> bp_breakpointType bp = ty"
  "selected e ty (Some s) bp \<longleftrightarrow>
     bp_breakpointType bp = ty \<and>
     (\<exists>bs. bp_source bp = Some bs \<and>
        ((\<exists>p. src_path bs = Some p \<and> src_path s = Some p) \<or>
         (\<exists>n. src_name bs = Some n \<and> isDisassembledFile e n \<and> src_name s = Some n)))"
  by (auto simp: selected_def isSameSource_def split: option.splits)



end
